theory Spec2Isabelle
  imports Complex_Main "HOL-Library.AList"
begin

section \<open>The structural delta engine of Iridium (\<open>lib/utils/Omnom\<close>)\<close>

text \<open>
  \<open>Omnom.diff(original, modified, options)\<close> compares two documents and builds a MongoDB
  change object with the operators \<open>$set\<close>, \<open>$unset\<close>, \<open>$inc\<close>, \<open>$push\<close>, \<open>$pull\<close> and
  \<open>$pullAll\<close>. This theory embeds the JavaScript of \<open>Omnom\<close> function by function.

  Scope of the model.
  \<^item> A JavaScript value is a \<open>node\<close>. Numbers are the integers (every operation of the source
    on document numbers is then exact as long as the values stay within \<open>\<plusminus>2^53\<close>); \<open>NaN\<close>,
    infinities and fractions do not occur as document numbers.
  \<^item> Arrays, plain objects and ObjectIDs are JavaScript objects: each carries the reference
    that identifies it, because \<open>==\<close> on two objects compares references, not contents.
  \<^item> A plain object is an association list in the order of \<open>Object.keys\<close>. Predicate
    \<open>well_formed\<close> states what the model relies on: keys are distinct, and no key names
    \<open>length\<close> (lodash's \<open>_.each\<close> would iterate such an object like an array) or a member
    of \<open>Object.prototype\<close> (a property read would find the inherited member).
  \<^item> The similarity score is a JavaScript number. It is computed here over the rationals with
    \<open>NaN\<close> and the infinities added; the rounding of IEEE doubles is not modelled.
  \<^item> The coercing cases of \<open>==\<close> (a string against a number, an object against a
    primitive) depend on \<open>ToNumber\<close> and \<open>ToPrimitive\<close>; they are a parameter \<open>c\<close> of the
    model, and every theorem holds for every such parameter.
  \<^item> A \<open>TypeError\<close> is the result \<open>None\<close>. The two documents are immutable values; the one
    statement of the source that can write to an object of the input records that write in
    the state of the run.
\<close>

subsection \<open>Values\<close>

type_synonym ref = nat

datatype node =
    Undefined
  | Null
  | Bool bool
  | Num int
  | Str string
  | Arr ref "node list"
  | Obj ref "(string \<times> node) list"
  | ObjectID ref string

text \<open>\<open>Array.isArray\<close>, \<open>_.isPlainObject\<close>, \<open>instanceof MongoDB.ObjectID\<close>, \<open>typeof x == 'number'\<close>.\<close>

fun isArray :: "node \<Rightarrow> bool" where
  "isArray (Arr r xs) = True"
| "isArray _ = False"

fun isPlainObject :: "node \<Rightarrow> bool" where
  "isPlainObject (Obj r kvs) = True"
| "isPlainObject _ = False"

fun isObjectID :: "node \<Rightarrow> bool" where
  "isObjectID (ObjectID r i) = True"
| "isObjectID _ = False"

fun isNumber :: "node \<Rightarrow> bool" where
  "isNumber (Num n) = True"
| "isNumber _ = False"

fun isNullish :: "node \<Rightarrow> bool" where
  "isNullish Undefined = True"
| "isNullish Null = True"
| "isNullish _ = False"

fun isObject :: "node \<Rightarrow> bool" where
  "isObject (Arr r xs) = True"
| "isObject (Obj r kvs) = True"
| "isObject (ObjectID r i) = True"
| "isObject _ = False"

text \<open>The own enumerable properties of a plain object, and the elements of an array.\<close>

fun entries :: "node \<Rightarrow> (string \<times> node) list" where
  "entries (Obj r kvs) = kvs"
| "entries _ = []"

definition keys :: "node \<Rightarrow> string list" where
  "keys x = map fst (entries x)"

fun elems :: "node \<Rightarrow> node list" where
  "elems (Arr r xs) = xs"
| "elems _ = []"

definition len :: "node \<Rightarrow> nat" where
  "len x = length (elems x)"

text \<open>The property read \<open>x[key]\<close> on a plain object: \<open>undefined\<close> for a key it does not have.\<close>

definition getprop :: "node \<Rightarrow> string \<Rightarrow> node" where
  "getprop x key = (case map_of (entries x) key of None \<Rightarrow> Undefined | Some v \<Rightarrow> v)"

text \<open>The element read \<open>x[i]\<close> on an array: \<open>undefined\<close> past its end.\<close>

definition elem :: "node \<Rightarrow> nat \<Rightarrow> node" where
  "elem x i = (if i < len x then elems x ! i else Undefined)"

text \<open>The value of a number node (used only under \<open>isNumber\<close>).\<close>

fun num_of :: "node \<Rightarrow> int" where
  "num_of (Num n) = n"
| "num_of _ = 0"

text \<open>JavaScript truthiness, as in \<open>if (x)\<close> and \<open>!x\<close>.\<close>

fun truthy :: "node \<Rightarrow> bool" where
  "truthy Undefined = False"
| "truthy Null = False"
| "truthy (Bool b) = b"
| "truthy (Num n) = (n \<noteq> 0)"
| "truthy (Str s) = (s \<noteq> [])"
| "truthy _ = True"

subsection \<open>Equalities\<close>

text \<open>
  \<open>a == b\<close>. \<open>null\<close> and \<open>undefined\<close> equal each other and nothing else; two objects are
  equal when they are the same object; two primitives of one type are compared by value; a
  boolean is compared with a number as \<open>0\<close> or \<open>1\<close>. Every other pair needs \<open>ToNumber\<close> of
  a string or \<open>ToPrimitive\<close> of an object and is decided by the parameter \<open>c\<close>.
\<close>

type_synonym coercion = "node \<Rightarrow> node \<Rightarrow> bool"

fun same_object :: "node \<Rightarrow> node \<Rightarrow> bool" where
  "same_object (Arr r xs) (Arr r' ys) = (r = r')"
| "same_object (Obj r xs) (Obj r' ys) = (r = r')"
| "same_object (ObjectID r i) (ObjectID r' j) = (r = r')"
| "same_object _ _ = False"

fun prim_eq :: "coercion \<Rightarrow> node \<Rightarrow> node \<Rightarrow> bool" where
  "prim_eq c (Bool a) (Bool b) = (a = b)"
| "prim_eq c (Num a) (Num b) = (a = b)"
| "prim_eq c (Str a) (Str b) = (a = b)"
| "prim_eq c (Bool a) (Num b) = ((if a then 1 else 0) = b)"
| "prim_eq c (Num a) (Bool b) = (a = (if b then 1 else 0))"
| "prim_eq c x y = c x y"

definition loose_eq :: "coercion \<Rightarrow> node \<Rightarrow> node \<Rightarrow> bool" where
  "loose_eq c x y =
     (if isNullish x \<or> isNullish y then isNullish x \<and> isNullish y
      else if isObject x \<and> isObject y then same_object x y
      else prim_eq c x y)"

text \<open>\<open>ObjectID.prototype.equals\<close> on two ObjectIDs: the identifiers agree.\<close>

fun equals :: "node \<Rightarrow> node \<Rightarrow> bool" where
  "equals (ObjectID r i) (ObjectID r' j) = (i = j)"
| "equals _ _ = False"

text \<open>
  lodash's \<open>_.isEqual\<close>: deep equality. Primitives are compared strictly, arrays element by
  element, plain objects key by key whatever the order of the keys, ObjectIDs by their
  identifier; values of different kinds are never equal. References play no part.
\<close>

fun isEqual :: "node \<Rightarrow> node \<Rightarrow> bool" where
  "isEqual Undefined y = (y = Undefined)"
| "isEqual Null y = (y = Null)"
| "isEqual (Bool a) y = (y = Bool a)"
| "isEqual (Num a) y = (y = Num a)"
| "isEqual (Str a) y = (y = Str a)"
| "isEqual (ObjectID r i) y = (case y of ObjectID r' j \<Rightarrow> i = j | _ \<Rightarrow> False)"
| "isEqual (Arr r xs) y =
     (case y of Arr r' ys \<Rightarrow> list_all2 isEqual xs ys | _ \<Rightarrow> False)"
| "isEqual (Obj r kvs) y =
     (case y of
        Obj r' kvs' \<Rightarrow>
          length kvs = length kvs' \<and>
          list_all (\<lambda>(k, v). case map_of kvs' k of None \<Rightarrow> False | Some w \<Rightarrow> isEqual v w) kvs
      | _ \<Rightarrow> False)"

subsection \<open>Well-formed documents\<close>

definition reserved_keys :: "string list" where
  "reserved_keys =
     [''length'', ''constructor'', ''toString'', ''toLocaleString'', ''valueOf'',
      ''hasOwnProperty'', ''isPrototypeOf'', ''propertyIsEnumerable'', ''__proto__'',
      ''__defineGetter__'', ''__defineSetter__'', ''__lookupGetter__'', ''__lookupSetter__'']"

fun well_formed :: "node \<Rightarrow> bool" where
  "well_formed (Arr r xs) = list_all well_formed xs"
| "well_formed (Obj r kvs) =
     (distinct (map fst kvs) \<and>
      list_all (\<lambda>(k, v). k \<notin> set reserved_keys \<and> well_formed v) kvs)"
| "well_formed _ = True"

subsection \<open>The numbers of the similarity score\<close>

datatype jsnum = NaN | PosInf | NegInf | Val rat

text \<open>\<open>a / b\<close> on two integers: \<open>0 / 0\<close> is \<open>NaN\<close>, any other division by zero is infinite.\<close>

definition js_div :: "int \<Rightarrow> int \<Rightarrow> jsnum" where
  "js_div a b =
     (if b = 0 then (if a = 0 then NaN else if 0 < a then PosInf else NegInf)
      else Val (rat_of_int a / rat_of_int b))"

text \<open>\<open>x - y\<close>: \<open>NaN\<close> is absorbing, and two infinities of one sign cancel to \<open>NaN\<close>.\<close>

fun js_sub :: "jsnum \<Rightarrow> jsnum \<Rightarrow> jsnum" where
  "js_sub (Val a) (Val b) = Val (a - b)"
| "js_sub NaN y = NaN"
| "js_sub x NaN = NaN"
| "js_sub PosInf PosInf = NaN"
| "js_sub NegInf NegInf = NaN"
| "js_sub PosInf y = PosInf"
| "js_sub NegInf y = NegInf"
| "js_sub (Val a) PosInf = NegInf"
| "js_sub (Val a) NegInf = PosInf"

text \<open>\<open>x < 1\<close>, \<open>x === 0\<close> and the truthiness of a number; all three are false of \<open>NaN\<close>.\<close>

fun lt_one :: "jsnum \<Rightarrow> bool" where
  "lt_one (Val q) = (q < 1)"
| "lt_one NegInf = True"
| "lt_one _ = False"

fun is_zero :: "jsnum \<Rightarrow> bool" where
  "is_zero (Val q) = (q = 0)"
| "is_zero _ = False"

fun truthy_num :: "jsnum \<Rightarrow> bool" where
  "truthy_num (Val q) = (q \<noteq> 0)"
| "truthy_num NaN = False"
| "truthy_num _ = True"

subsection \<open>\<open>Omnom.prototype.almostEqual\<close>\<close>

lemma getprop_size:
  "isPlainObject x \<Longrightarrow> key \<in> set (keys x) \<Longrightarrow> size (getprop x key) < size x"
proof (cases x)
  case (Obj r kvs)
  assume "key \<in> set (keys x)"
  with Obj have "key \<in> fst ` set kvs" by (simp add: keys_def)
  then have "map_of kvs key \<noteq> None" by (simp add: map_of_eq_None_iff)
  then obtain v where v: "map_of kvs key = Some v" by blast
  then have "(key, v) \<in> set kvs" by (rule map_of_SomeD)
  then have "size v < Suc (size_list (size_prod (\<lambda>_. 0) size) kvs)"
    by (induction kvs) auto
  with Obj v show ?thesis by (simp add: getprop_def)
qed auto

function almostEqual :: "coercion \<Rightarrow> node \<Rightarrow> node \<Rightarrow> jsnum" where
  "almostEqual c o1 o2 =
     (if \<not> isPlainObject o1 \<or> \<not> isPlainObject o2 then
        (if loose_eq c o1 o2 then Val 1 else Val 0)
      else
        (let o1k = keys o1;
             o2k = keys o2;
             commonKeys = filter (\<lambda>k. k \<in> set o2k) o1k;
             totalKeys = int (length o1k) + int (length o2k) - int (length commonKeys);
             keysDifference = totalKeys - int (length commonKeys);
             requiredChanges =
               int (length (filter (\<lambda>k. lt_one (almostEqual c (getprop o1 k) (getprop o2 k)))
                      commonKeys))
         in js_sub (js_sub (Val 1) (js_div keysDifference totalKeys))
              (js_div requiredChanges (int (length commonKeys)))))"
  by pat_completeness auto
termination
  by (relation "measure (\<lambda>(c, o1, o2). size o1)") (auto simp: getprop_size)

declare almostEqual.simps [simp del]

subsection \<open>The change set and its builder\<close>

text \<open>
  \<open>this._changes\<close>: each operator key is absent (\<open>None\<close>) or holds a mapping from paths to
  operands, in insertion order. An entry of \<open>$push\<close> is either a value stored as it came
  (\<open>Single\<close>) or the wrapper \<open>{ $each: [...] }\<close> that \<open>push\<close> itself builds (\<open>Each\<close>); an
  entry of \<open>$pullAll\<close> is the array literal that \<open>pull\<close> builds.
\<close>

datatype pushed = Single node | Each "node list"

record changes =
  d_set :: "(string \<times> node) list option"
  d_unset :: "(string \<times> node) list option"
  d_inc :: "(string \<times> node) list option"
  d_push :: "(string \<times> pushed) list option"
  d_pull :: "(string \<times> node) list option"
  d_pullAll :: "(string \<times> node list) list option"

record options =
  atomicNumbers :: bool

text \<open>
  An \<open>Omnom\<close> instance: its change set and its options. Field \<open>input_writes\<close> is the log
  of the writes the instance performs on objects it did not create: the pair \<open>(r, v)\<close>
  records that \<open>v\<close> was appended to the array with reference \<open>r\<close>. Every other write of the
  source goes to \<open>this._changes\<close> or to an array literal of the builder.
\<close>

record omnom = changes +
  options :: options
  input_writes :: "(ref \<times> node) list"


definition new_Omnom :: "options \<Rightarrow> omnom" where
  "new_Omnom opts =
     \<lparr>d_set = None, d_unset = None, d_inc = None, d_push = None, d_pull = None,
      d_pullAll = None, options = opts, input_writes = []\<rparr>"

text \<open>The getter \<open>changes\<close>.\<close>

definition changes_of :: "omnom \<Rightarrow> changes" where
  "changes_of st = changes.truncate st"

text \<open>
  A path is a string or \<open>undefined\<close> (\<open>None\<close>; the root call of \<open>onObject\<close> passes no path).
  Used as a property key, \<open>undefined\<close> is the string \<open>"undefined"\<close>.
\<close>

definition pkey :: "string option \<Rightarrow> string" where
  "pkey path = (case path of None \<Rightarrow> ''undefined'' | Some s \<Rightarrow> s)"

text \<open>\<open>if (!this.changes.$op) this.changes.$op = {}\<close>, read afterwards.\<close>

definition the_map :: "'a list option \<Rightarrow> 'a list" where
  "the_map m = (case m of None \<Rightarrow> [] | Some kvs \<Rightarrow> kvs)"

definition set_change :: "omnom \<Rightarrow> string option \<Rightarrow> node \<Rightarrow> omnom" where
  "set_change st path v = st\<lparr>d_set := Some (AList.update (pkey path) v (the_map (d_set st)))\<rparr>"

definition unset :: "omnom \<Rightarrow> string option \<Rightarrow> omnom" where
  "unset st path = st\<lparr>d_unset := Some (AList.update (pkey path) (Num 1) (the_map (d_unset st)))\<rparr>"

definition inc :: "omnom \<Rightarrow> string option \<Rightarrow> node \<Rightarrow> omnom" where
  "inc st path v = st\<lparr>d_inc := Some (AList.update (pkey path) v (the_map (d_inc st)))\<rparr>"

text \<open>The assignment \<open>x[key] = v\<close> on a plain object.\<close>

fun setprop :: "node \<Rightarrow> string \<Rightarrow> node \<Rightarrow> node" where
  "setprop (Obj r kvs) key v = Obj r (AList.update key v kvs)"
| "setprop x key v = x"

text \<open>
  \<open>push\<close>. The source tests \<open>this.changes.$push[path]\<close> and then
  \<open>this.changes.$push[path].$each\<close> for truthiness. A stored value that is falsy is
  overwritten. A stored value that is itself an object with a truthy \<open>$each\<close> property is
  taken for the builder's wrapper: \<open>.$each.push(value)\<close> then appends to an array of the
  input (logged in \<open>input_writes\<close>), or throws a \<open>TypeError\<close> (\<open>None\<close>) when that
  property is not an array.
\<close>

definition push :: "omnom \<Rightarrow> string option \<Rightarrow> node \<Rightarrow> omnom option" where
  "push st path v =
     (let m = the_map (d_push st); k = pkey path in
      case map_of m k of
        None \<Rightarrow> Some (st\<lparr>d_push := Some (AList.update k (Single v) m)\<rparr>)
      | Some (Each vs) \<Rightarrow> Some (st\<lparr>d_push := Some (AList.update k (Each (vs @ [v])) m)\<rparr>)
      | Some (Single w) \<Rightarrow>
          if truthy w then
            (if truthy (getprop w ''$each'') then
               (case getprop w ''$each'' of
                  Arr r xs \<Rightarrow>
                    Some (st\<lparr>d_push :=
                                Some (AList.update k
                                  (Single (setprop w ''$each'' (Arr r (xs @ [v])))) m),
                              input_writes := input_writes st @ [(r, v)]\<rparr>)
                | _ \<Rightarrow> None)
             else Some (st\<lparr>d_push := Some (AList.update k (Each [w, v]) m)\<rparr>))
          else Some (st\<lparr>d_push := Some (AList.update k (Single v) m)\<rparr>))"

definition pullAll :: "omnom \<Rightarrow> string option \<Rightarrow> node list \<Rightarrow> omnom" where
  "pullAll st path vs =
     st\<lparr>d_pullAll := Some (AList.update (pkey path) vs (the_map (d_pullAll st)))\<rparr>"

text \<open>
  \<open>pull\<close>. The first statement creates \<open>$pull\<close> when it is absent, before the test on
  \<open>$pullAll\<close>; the branch that moves a value to \<open>$pullAll\<close> deletes \<open>$pull\<close> again when it
  has become empty.
\<close>

definition pull :: "omnom \<Rightarrow> string option \<Rightarrow> node \<Rightarrow> omnom" where
  "pull st path v =
     (let k = pkey path;
          st1 = st\<lparr>d_pull := Some (the_map (d_pull st))\<rparr>
      in case map_of (the_map (d_pullAll st1)) k of
           Some vs \<Rightarrow>
             st1\<lparr>d_pullAll := Some (AList.update k (vs @ [v]) (the_map (d_pullAll st1)))\<rparr>
         | None \<Rightarrow>
             (case map_of (the_map (d_pull st1)) k of
                Some w \<Rightarrow>
                  if truthy w then
                    (let st2 = pullAll st1 path [w, v];
                         m = AList.delete k (the_map (d_pull st2))
                     in st2\<lparr>d_pull := (if m = [] then None else Some m)\<rparr>)
                  else st1\<lparr>d_pull := Some (AList.update k v (the_map (d_pull st1)))\<rparr>
              | None \<Rightarrow> st1\<lparr>d_pull := Some (AList.update k v (the_map (d_pull st1)))\<rparr>))"

text \<open>
  \<open>resolve\<close>: the truthy arguments joined with dots. An argument is a string or
  \<open>undefined\<close>; the empty string and \<open>undefined\<close> are dropped.
\<close>

fun join_dot :: "string list \<Rightarrow> string" where
  "join_dot [] = []"
| "join_dot [x] = x"
| "join_dot (x # y # ys) = x @ ''.'' @ join_dot (y # ys)"

definition resolve :: "string option list \<Rightarrow> string" where
  "resolve args =
     join_dot (concat (map (\<lambda>arg. case arg of None \<Rightarrow> [] | Some s \<Rightarrow> if s = [] then [] else [s])
       args))"

text \<open>\<open>i.toString()\<close> for an array index.\<close>

definition digit :: "nat \<Rightarrow> char" where
  "digit n = ''0123456789'' ! n"

fun show_nat :: "nat \<Rightarrow> string" where
  "show_nat n = (if n < 10 then [digit n] else show_nat (n div 10) @ [digit (n mod 10)])"

declare show_nat.simps [simp del]

subsection \<open>\<open>Omnom.prototype.onArray\<close> and \<open>Omnom.prototype.onObject\<close>\<close>

text \<open>A loop whose body may throw: it stops at the first \<open>None\<close>.\<close>

fun forEach :: "('a \<Rightarrow> 's \<Rightarrow> 's option) \<Rightarrow> 'a list \<Rightarrow> 's \<Rightarrow> 's option" where
  "forEach f [] s = Some s"
| "forEach f (x # xs) s = (case f x s of None \<Rightarrow> None | Some s' \<Rightarrow> forEach f xs s')"

lemma forEach_cong [fundef_cong]:
  "xs = ys \<Longrightarrow> s = t \<Longrightarrow> (\<And>x u. x \<in> set ys \<Longrightarrow> f x u = g x u) \<Longrightarrow>
   forEach f xs s = forEach g ys t"
proof (induction xs arbitrary: ys s t)
  case Nil
  then show ?case by simp
next
  case (Cons x xs)
  then show ?case by (auto split: option.splits)
qed

text \<open>
  The two loops of the shrink strategy, over what is left of \<open>original\<close> (from index \<open>i\<close>)
  and of \<open>modified\<close> (from index \<open>j\<close>). The result is the list \<open>pulls\<close> and whether
  \<open>j === modified.length\<close> at the end.
\<close>

fun shrink_walk :: "coercion \<Rightarrow> node list \<Rightarrow> node list \<Rightarrow> node list \<Rightarrow> node list \<times> bool" where
  "shrink_walk c [] ms pulls = (pulls, ms = [])"
| "shrink_walk c (x # xs) [] pulls = (pulls @ (x # xs), True)"
| "shrink_walk c (x # xs) (m # ms) pulls =
     (if truthy_num (almostEqual c x m) then shrink_walk c xs ms pulls
      else shrink_walk c xs (m # ms) (pulls @ [x]))"

text \<open>The grow strategy's test: no shared index has a score below \<open>1\<close>.\<close>

definition canPush :: "coercion \<Rightarrow> node \<Rightarrow> node \<Rightarrow> bool" where
  "canPush c original modified =
     list_all (\<lambda>i. \<not> lt_one (almostEqual c (elem original i) (elem modified i)))
       [0..<len original]"

text \<open>The buckets \<open>sets\<close> and \<open>partials\<close> of positional reconciliation.\<close>

definition sets_of :: "coercion \<Rightarrow> node \<Rightarrow> node \<Rightarrow> nat list" where
  "sets_of c original modified =
     filter (\<lambda>i. is_zero (almostEqual c (elem original i) (elem modified i)))
       [0..<len modified]"

definition partials_of :: "coercion \<Rightarrow> node \<Rightarrow> node \<Rightarrow> nat list" where
  "partials_of c original modified =
     filter (\<lambda>i. \<not> is_zero (almostEqual c (elem original i) (elem modified i)) \<and>
                 lt_one (almostEqual c (elem original i) (elem modified i)))
       [0..<len modified]"

lemma entries_size: "(k, v) \<in> set (entries m) \<Longrightarrow> size v < size m"
proof (cases m)
  case (Obj r kvs)
  assume "(k, v) \<in> set (entries m)"
  with Obj have "(k, v) \<in> set kvs" by simp
  then have "size v < Suc (size_list (size_prod (\<lambda>_. 0) size) kvs)"
    by (induction kvs) auto
  with Obj show ?thesis by simp
qed auto

lemma elem_size: "i < len m \<Longrightarrow> size (elem m i) < size m"
proof (cases m)
  case (Arr r xs)
  assume "i < len m"
  with Arr have i: "i < length xs" by (simp add: len_def)
  then have "xs ! i \<in> set xs" by simp
  moreover have "y \<in> set xs \<Longrightarrow> size y < Suc (size_list size xs)" for y
    by (induction xs) auto
  ultimately have "size (xs ! i) < Suc (size_list size xs)" by blast
  with Arr i show ?thesis by (simp add: elem_def len_def)
qed (auto simp: len_def)

lemma partials_of_bound: "i \<in> set (partials_of c original modified) \<Longrightarrow> i < len modified"
  by (simp add: partials_of_def)

function onObject :: "coercion \<Rightarrow> omnom \<Rightarrow> node \<Rightarrow> node \<Rightarrow> string option \<Rightarrow> omnom option"
  and onArray :: "coercion \<Rightarrow> omnom \<Rightarrow> node \<Rightarrow> node \<Rightarrow> string option \<Rightarrow> omnom option"
where
  "onObject c st original modified changePath =
     (if original = Undefined \<or> original = Null then
        (if original \<noteq> modified then Some (set_change st changePath modified) else Some st)
      else if isNumber original \<and> isNumber modified \<and> original \<noteq> modified then
        (if atomicNumbers (options st)
         then Some (inc st changePath (Num (num_of modified - num_of original)))
         else Some (set_change st changePath modified))
      else if isArray original \<and> isArray modified then
        onArray c st original modified changePath
      else if isObjectID original \<and> isObjectID modified then
        (if equals original modified then Some st
         else Some (set_change st changePath modified))
      else if \<not> isPlainObject original \<or> \<not> isPlainObject modified then
        (if isEqual original modified then Some st
         else Some (set_change st changePath modified))
      else
        (case forEach
                (\<lambda>(key, v) s.
                   if isArray v \<and> isArray (getprop original key)
                   then onArray c s (getprop original key) v
                          (Some (resolve [changePath, Some key]))
                   else onObject c s (getprop original key) v
                          (Some (resolve [changePath, Some key])))
                (entries modified) st of
           None \<Rightarrow> None
         | Some st' \<Rightarrow>
             Some (fold
                    (\<lambda>(key, v) s.
                       if getprop modified key = Undefined \<or> getprop modified key = Null
                       then unset s (Some (resolve [changePath, Some key]))
                       else s)
                    (entries original) st')))"
| "onArray c st original modified changePath =
     (if len original > len modified then
        (case shrink_walk c (elems original) (elems modified) [] of
           (pulls, True) \<Rightarrow>
             (if length pulls = 1 then Some (pull st changePath (pulls ! 0))
              else Some (fold (\<lambda>p s. pull s changePath p) pulls st))
         | (pulls, False) \<Rightarrow> Some (set_change st changePath modified))
      else if len original < len modified \<and> canPush c original modified then
        forEach (\<lambda>i s. push s changePath (elem modified i)) [len original..<len modified] st
      else if rat_of_nat (length (sets_of c original modified)) > rat_of_nat (len modified) / 2
      then Some (set_change st changePath modified)
      else
        forEach
          (\<lambda>i s. onObject c s (elem original i) (elem modified i)
                   (Some (resolve [changePath, Some (show_nat i)])))
          (partials_of c original modified)
          (fold
             (\<lambda>i s. set_change s (Some (resolve [changePath, Some (show_nat i)]))
                      (elem modified i))
             (sets_of c original modified) st))"
  by pat_completeness auto
termination
  by (relation "measures
        [\<lambda>x. case x of Inl (c, st, original, modified, p) \<Rightarrow> size modified
                      | Inr (c, st, original, modified, p) \<Rightarrow> size modified,
         \<lambda>x. case x of Inl _ \<Rightarrow> 1 | Inr _ \<Rightarrow> 0]")
     (auto simp: entries_size elem_size partials_of_bound)

declare onObject.simps [simp del] onArray.simps [simp del]

text \<open>\<open>Omnom.prototype.diff\<close> and the static \<open>Omnom.diff\<close>.\<close>

definition Omnom_diff :: "coercion \<Rightarrow> omnom \<Rightarrow> node \<Rightarrow> node \<Rightarrow> omnom option" where
  "Omnom_diff c st original modified = onObject c st original modified None"

definition diff :: "coercion \<Rightarrow> node \<Rightarrow> node \<Rightarrow> options \<Rightarrow> changes option" where
  "diff c original modified opts =
     map_option changes_of (Omnom_diff c (new_Omnom opts) original modified)"

section \<open>Notions used by the statements\<close>

subsection \<open>A coercion for concrete runs\<close>

text \<open>
  The concrete runs below compare values of one kind only, so the coercing cases of \<open>==\<close>
  are never reached in them; the parameter is instantiated with a function that is never
  consulted there.
\<close>

definition no_coercion :: coercion where
  "no_coercion x y = False"


subsection \<open>Fields reached through records\<close>






subsection \<open>Documents without a truthy \<open>$each\<close> property\<close>


subsection \<open>The canonical semantics of the update operators\<close>

text \<open>
  Modelled from the spec: the executor that applies a change set to a stored document is
  outside the repository. The round-trip law of the spec fixes its semantics in words:
  set overwrites at the path, unset removes the field, inc adds the delta, push appends (an
  \<open>$each\<close> batch appends each value in order), pull removes all occurrences equal to the
  value, pullAll removes all occurrences equal to any value of its list. A path is split at
  its dots; a segment names a field of a record or an index of an array. Where these words
  do not say what happens (a path that leads nowhere), the document is left as it is.
  Equality of values is deep equality.
\<close>

fun split_dot :: "string \<Rightarrow> string \<Rightarrow> string list" where
  "split_dot acc [] = [rev acc]"
| "split_dot acc (ch # s) =
     (if ch = CHR ''.'' then rev acc # split_dot [] s else split_dot (ch # acc) s)"

definition segments :: "string \<Rightarrow> string list" where
  "segments path = split_dot [] path"

fun digit_of :: "char \<Rightarrow> nat option" where
  "digit_of ch =
     (if ch = CHR ''0'' then Some 0 else if ch = CHR ''1'' then Some 1
      else if ch = CHR ''2'' then Some 2 else if ch = CHR ''3'' then Some 3
      else if ch = CHR ''4'' then Some 4 else if ch = CHR ''5'' then Some 5
      else if ch = CHR ''6'' then Some 6 else if ch = CHR ''7'' then Some 7
      else if ch = CHR ''8'' then Some 8 else if ch = CHR ''9'' then Some 9 else None)"

fun index_of :: "nat \<Rightarrow> string \<Rightarrow> nat option" where
  "index_of n [] = Some n"
| "index_of n (ch # s) =
     (case digit_of ch of None \<Rightarrow> None | Some d \<Rightarrow> index_of (10 * n + d) s)"

definition parse_index :: "string \<Rightarrow> nat option" where
  "parse_index s = (if s = [] then None else index_of 0 s)"

text \<open>\<open>assign_at\<close> overwrites (or adds) the addressed field; \<open>modify_at\<close> changes an existing one.\<close>

fun assign_at :: "string list \<Rightarrow> node \<Rightarrow> node \<Rightarrow> node" where
  "assign_at [] v x = v"
| "assign_at (s # ss) v (Obj r kvs) =
     (if ss = [] \<or> s \<in> fst ` set kvs
      then Obj r (AList.update s (assign_at ss v (getprop (Obj r kvs) s)) kvs)
      else Obj r kvs)"
| "assign_at (s # ss) v (Arr r xs) =
     (case parse_index s of
        None \<Rightarrow> Arr r xs
      | Some i \<Rightarrow> if i < length xs then Arr r (xs[i := assign_at ss v (xs ! i)]) else Arr r xs)"
| "assign_at (s # ss) v x = x"

fun modify_at :: "string list \<Rightarrow> (node \<Rightarrow> node) \<Rightarrow> node \<Rightarrow> node" where
  "modify_at [] f x = f x"
| "modify_at (s # ss) f (Obj r kvs) =
     (if s \<in> fst ` set kvs
      then Obj r (AList.update s (modify_at ss f (getprop (Obj r kvs) s)) kvs)
      else Obj r kvs)"
| "modify_at (s # ss) f (Arr r xs) =
     (case parse_index s of
        None \<Rightarrow> Arr r xs
      | Some i \<Rightarrow> if i < length xs then Arr r (xs[i := modify_at ss f (xs ! i)]) else Arr r xs)"
| "modify_at (s # ss) f x = x"

fun remove_at :: "string list \<Rightarrow> node \<Rightarrow> node" where
  "remove_at [] x = x"
| "remove_at (s # ss) (Obj r kvs) =
     (if ss = [] then Obj r (AList.delete s kvs)
      else if s \<in> fst ` set kvs
      then Obj r (AList.update s (remove_at ss (getprop (Obj r kvs) s)) kvs)
      else Obj r kvs)"
| "remove_at (s # ss) (Arr r xs) =
     (case parse_index s of
        None \<Rightarrow> Arr r xs
      | Some i \<Rightarrow>
          if ss \<noteq> [] \<and> i < length xs then Arr r (xs[i := remove_at ss (xs ! i)])
          else Arr r xs)"
| "remove_at (s # ss) x = x"

fun op_inc :: "node \<Rightarrow> node \<Rightarrow> node" where
  "op_inc (Num d) (Num n) = Num (n + d)"
| "op_inc d x = x"

fun op_push :: "pushed \<Rightarrow> node \<Rightarrow> node" where
  "op_push (Single v) (Arr r xs) = Arr r (xs @ [v])"
| "op_push (Each vs) (Arr r xs) = Arr r (xs @ vs)"
| "op_push e x = x"

fun op_pullAll :: "node list \<Rightarrow> node \<Rightarrow> node" where
  "op_pullAll vs (Arr r xs) = Arr r (filter (\<lambda>x. \<not> list_ex (isEqual x) vs) xs)"
| "op_pullAll vs x = x"

definition op_pull :: "node \<Rightarrow> node \<Rightarrow> node" where
  "op_pull v x = op_pullAll [v] x"

definition apply_changes :: "changes \<Rightarrow> node \<Rightarrow> node" where
  "apply_changes ch x =
     fold (\<lambda>(p, vs). modify_at (segments p) (op_pullAll vs)) (the_map (d_pullAll ch))
    (fold (\<lambda>(p, v). modify_at (segments p) (op_pull v)) (the_map (d_pull ch))
    (fold (\<lambda>(p, e). modify_at (segments p) (op_push e)) (the_map (d_push ch))
    (fold (\<lambda>(p, d). modify_at (segments p) (op_inc d)) (the_map (d_inc ch))
    (fold (\<lambda>(p, u). remove_at (segments p)) (the_map (d_unset ch))
    (fold (\<lambda>(p, v). assign_at (segments p) v) (the_map (d_set ch)) x)))))"

subsection \<open>Auxiliary notions of the proofs\<close>






text \<open>
  The invariant behind claim C10: nothing of the input has been written, and no value
  stored under \<open>$push\<close> can be mistaken for the builder's \<open>$each\<close> wrapper.
\<close>

definition push_ok :: "omnom \<Rightarrow> bool" where
  "push_ok st =
     (input_writes st = [] \<and>
      list_all (\<lambda>(k, e). case e of Single w \<Rightarrow> \<not> truthy (getprop w ''$each'') | Each vs \<Rightarrow> True)
        (the_map (d_push st)))"

section \<open>Running the model\<close>

text \<open>
  The equations that a concrete run unfolds. The recursive equations are guarded by a
  conditional, so the simplifier unfolds them only as far as the input reaches.
\<close>

lemmas run_defs =
  diff_def Omnom_diff_def onObject.simps onArray.simps almostEqual.simps new_Omnom_def
  changes_of_def changes.truncate_def omnom.defs changes.defs set_change_def unset_def
  inc_def push_def pull_def pullAll_def resolve_def getprop_def elem_def len_def keys_def
  pkey_def the_map_def canPush_def sets_of_def partials_of_def loose_eq_def js_div_def
  show_nat.simps digit_def

lemmas apply_defs = apply_changes_def segments_def op_pull_def parse_index_def

section \<open>Facts about the similarity score\<close>


lemma common_le_right:
  assumes "distinct xs" "distinct ys"
  shows "length (filter (\<lambda>k. k \<in> set ys) xs) \<le> length ys"
proof -
  have "distinct (filter (\<lambda>k. k \<in> set ys) xs)" using assms(1) by simp
  then have "length (filter (\<lambda>k. k \<in> set ys) xs) = card (set (filter (\<lambda>k. k \<in> set ys) xs))"
    by (rule distinct_card [symmetric])
  also have "\<dots> \<le> card (set ys)" by (rule card_mono) auto
  also have "\<dots> = length ys" using assms(2) by (simp add: distinct_card)
  finally show ?thesis .
qed

lemma well_formed_keys: "well_formed x \<Longrightarrow> distinct (keys x)"
  by (cases x) (auto simp: keys_def)

text \<open>
  The arithmetic of the score of two records with \<open>n1\<close> and \<open>n2\<close> distinct keys, \<open>cm\<close> of
  them common and \<open>rc\<close> of the common ones differing.
\<close>

lemma score_bounds:
  fixes n1 n2 cm rc :: nat
  assumes "1 \<le> cm" "cm \<le> n1" "cm \<le> n2" "rc \<le> cm"
  shows "\<exists>q. js_sub (js_sub (Val 1)
                 (js_div (int n1 + int n2 - int cm - int cm) (int n1 + int n2 - int cm)))
              (js_div (int rc) (int cm)) = Val q \<and> -1 < q \<and> q \<le> 1"
proof -
  let ?t = "int n1 + int n2 - int cm"
  let ?kd = "?t - int cm"
  have t: "0 < ?t" and kd: "0 \<le> ?kd" "?kd < ?t" using assms by auto
  have a: "0 \<le> rat_of_int ?kd / rat_of_int ?t" using t kd by simp
  have b: "rat_of_int ?kd / rat_of_int ?t < 1" using t kd by simp
  have c: "0 \<le> rat_of_int (int rc) / rat_of_int (int cm)" by simp
  have d: "rat_of_int (int rc) / rat_of_int (int cm) \<le> 1" using assms by simp
  have "js_sub (js_sub (Val 1) (js_div ?kd ?t)) (js_div (int rc) (int cm))
        = Val (1 - rat_of_int ?kd / rat_of_int ?t - rat_of_int (int rc) / rat_of_int (int cm))"
    using t assms by (simp add: js_div_def)
  moreover have "-1 < 1 - rat_of_int ?kd / rat_of_int ?t - rat_of_int (int rc) / rat_of_int (int cm)"
    using b d by linarith
  moreover have "1 - rat_of_int ?kd / rat_of_int ?t - rat_of_int (int rc) / rat_of_int (int cm) \<le> 1"
    using a c by linarith
  ultimately show ?thesis by blast
qed



section \<open>Diffing a document against itself\<close>

lemma the_map_simps [simp]: "the_map (Some m) = m" "the_map None = []"
  by (simp_all add: the_map_def)










text \<open>
  The documents compared above are one and the same: an array or an ObjectID inside an
  array is then \<open>==\<close> to itself. Against a separate copy this is lost, because \<open>==\<close> on two
  objects compares references: an unchanged array of arrays is set again as a whole.
\<close>

lemma copy_of_nested_array:
  "diff c (Obj 1 [(''a'', Arr 2 [Arr 3 [Num 1]])]) (Obj 4 [(''a'', Arr 5 [Arr 6 [Num 1]])]) opts =
     Some \<lparr>d_set = Some [(''a'', Arr 5 [Arr 6 [Num 1]])], d_unset = None, d_inc = None,
            d_push = None, d_pull = None, d_pullAll = None\<rparr>"
  by (simp add: run_defs upt_rec)

section \<open>Changing one number reached through records\<close>











section \<open>Writes to the input\<close>




lemma push_ok_set_change [simp]: "push_ok (set_change st p v) = push_ok st"
  by (simp add: push_ok_def set_change_def)

lemma push_ok_unset [simp]: "push_ok (unset st p) = push_ok st"
  by (simp add: push_ok_def unset_def)

lemma push_ok_inc [simp]: "push_ok (inc st p v) = push_ok st"
  by (simp add: push_ok_def inc_def)

lemma push_ok_pull [simp]: "push_ok (pull st p v) = push_ok st"
  by (simp add: push_ok_def pull_def pullAll_def Let_def split: option.splits)








section \<open>The claims\<close>

text \<open>
  Claim C1 (round trip): for every pair of well-formed documents, applying the change set
  of \<open>diff(original, modified)\<close> to \<open>original\<close> under the canonical operator semantics
  yields a document deeply equal to \<open>modified\<close>.

  The code breaks this. For \<open>diff({a: [1, 1]}, {a: [1]})\<close> the shrink walk matches the first
  \<open>1\<close>, collects the second into \<open>pulls\<close> and emits \<open>$pull a = 1\<close>; a pull removes every
  occurrence equal to \<open>1\<close> and leaves \<open>{a: []}\<close>.
\<close>

theorem C1_round_trip_fails:
  "\<exists>ch. diff c (Obj 1 [(''a'', Arr 2 [Num 1, Num 1])]) (Obj 3 [(''a'', Arr 4 [Num 1])]) opts
          = Some ch \<and>
        d_pull ch = Some [(''a'', Num 1)] \<and>
        apply_changes ch (Obj 1 [(''a'', Arr 2 [Num 1, Num 1])]) = Obj 1 [(''a'', Arr 2 [])] \<and>
        \<not> isEqual (apply_changes ch (Obj 1 [(''a'', Arr 2 [Num 1, Num 1])]))
             (Obj 3 [(''a'', Arr 4 [Num 1])])"
  by (simp add: run_defs apply_defs)




text \<open>
  Claim C3: for every pair of values \<open>a\<close> and \<open>b\<close>, \<open>almostEqual(a, b)\<close> is a real number in
  the closed interval \<open>[0, 1]\<close>.

  The formula \<open>1 - keysDifference / totalKeys - requiredChanges / commonKeys.length\<close>
  subtracts two penalties that can each reach \<open>1\<close>, so the score can be negative: for
  \<open>{a: 1, b: 2}\<close> against \<open>{a: 2}\<close> it is \<open>1 - 1/2 - 1/1\<close>.
\<close>

theorem C3_negative_score:
  "almostEqual no_coercion (Obj 1 [(''a'', Num 1), (''b'', Num 2)]) (Obj 2 [(''a'', Num 2)]) =
     Val (- (1 / 2))"
  by (simp add: run_defs)

text \<open>
  Claim C3, amended: for well-formed \<open>a\<close> and \<open>b\<close>, the score is \<open>0\<close> or \<open>1\<close> when \<open>a\<close> or \<open>b\<close>
  is not a record, and a number \<open>q\<close> with \<open>-1 < q \<le> 1\<close> when both are records that share
  at least one key. (Records without a common key are the subject of claim C5.)
\<close>

theorem C3_score_range:
  assumes "well_formed a" and "well_formed b"
  shows "(\<not> (isPlainObject a \<and> isPlainObject b) \<longrightarrow>
            almostEqual c a b = Val 0 \<or> almostEqual c a b = Val 1) \<and>
         (isPlainObject a \<and> isPlainObject b \<and> set (keys a) \<inter> set (keys b) \<noteq> {} \<longrightarrow>
            (\<exists>q. almostEqual c a b = Val q \<and> -1 < q \<and> q \<le> 1))"
proof (intro conjI impI)
  assume "\<not> (isPlainObject a \<and> isPlainObject b)"
  then show "almostEqual c a b = Val 0 \<or> almostEqual c a b = Val 1"
    by (auto simp: almostEqual.simps)
next
  assume h: "isPlainObject a \<and> isPlainObject b \<and> set (keys a) \<inter> set (keys b) \<noteq> {}"
  let ?cm = "filter (\<lambda>k. k \<in> set (keys b)) (keys a)"
  let ?rc = "filter (\<lambda>k. lt_one (almostEqual c (getprop a k) (getprop b k))) ?cm"
  have da: "distinct (keys a)" and db: "distinct (keys b)"
    using assms by (simp_all add: well_formed_keys)
  from h obtain k where "k \<in> set (keys a)" "k \<in> set (keys b)" by blast
  then have "k \<in> set ?cm" by simp
  then have "?cm \<noteq> []" by (auto simp: filter_empty_conv)
  then have 1: "1 \<le> length ?cm" by (cases ?cm) auto
  have 2: "length ?cm \<le> length (keys a)" by simp
  have 3: "length ?cm \<le> length (keys b)" using da db by (rule common_le_right)
  have 4: "length ?rc \<le> length ?cm" by (rule length_filter_le)
  from score_bounds [OF 1 2 3 4] h show "\<exists>q. almostEqual c a b = Val q \<and> -1 < q \<and> q \<le> 1"
    by (simp add: almostEqual.simps [of c a b] Let_def algebra_simps)
qed

theorem C3_score_range_witness:
  "well_formed (Obj 1 [(''a'', Num 1), (''b'', Num 2)]) \<and> well_formed (Obj 2 [(''a'', Num 2)]) \<and>
   well_formed (Num 1) \<and> well_formed (Num 2) \<and>
   (almostEqual no_coercion (Num 1) (Num 2) = Val 0 \<or>
    almostEqual no_coercion (Num 1) (Num 2) = Val 1) \<and>
   (\<exists>q. almostEqual no_coercion (Obj 1 [(''a'', Num 1), (''b'', Num 2)]) (Obj 2 [(''a'', Num 2)])
          = Val q \<and> -1 < q \<and> q \<le> 1)"
  using C3_score_range [of "Obj 1 [(''a'', Num 1), (''b'', Num 2)]" "Obj 2 [(''a'', Num 2)]"
          no_coercion]
        C3_score_range [of "Num 1" "Num 2" no_coercion]
  by (simp add: keys_def reserved_keys_def)

text \<open>
  Claim C4: for a key present in both \<open>original\<close> and \<open>modified\<close>, the change set never holds
  both a \<open>$set\<close> and an \<open>$unset\<close> entry for that key's path, also when the key's value in
  \<open>modified\<close> is \<open>null\<close>.

  The code breaks this. For \<open>diff({a: 1}, {a: null})\<close> the first loop of \<open>onObject\<close> reaches
  the generic fallback and emits \<open>$set a = null\<close>; the second loop finds
  \<open>modified.a === null\<close> and emits \<open>$unset a\<close> as well.
\<close>

theorem C4_set_and_unset_on_null:
  "diff c (Obj 1 [(''a'', Num 1)]) (Obj 2 [(''a'', Null)]) opts =
     Some \<lparr>d_set = Some [(''a'', Null)], d_unset = Some [(''a'', Num 1)], d_inc = None,
            d_push = None, d_pull = None, d_pullAll = None\<rparr>"
  by (simp add: run_defs)

text \<open>
  Claim C5: for two records without a common key, \<open>almostEqual\<close> returns a well-defined
  number: \<open>0\<close> when either record is non-empty, \<open>1\<close> when both are empty.

  The code has no guard on \<open>commonKeys.length\<close>: \<open>requiredChanges / commonKeys.length\<close> is
  \<open>0 / 0\<close>, and the score is \<open>NaN\<close> in both cases.
\<close>

theorem C5_disjoint_records_score_NaN:
  "almostEqual c (Obj 1 [(''a'', Num 1)]) (Obj 2 [(''b'', Num 1)]) = NaN \<and>
   almostEqual c (Obj 1 []) (Obj 2 []) = NaN"
  by (simp add: run_defs)

text \<open>
  Claim C6: every operator key present in the returned change set maps to a non-empty
  mapping; no sequence of \<open>pull\<close>/\<open>pullAll\<close> coalescing leaves an operator key with an empty
  mapping.

  The code breaks this. Removing three elements calls \<open>pull\<close> three times on one path: the
  second call moves the path to \<open>$pullAll\<close> and deletes the emptied \<open>$pull\<close>; the third
  call creates \<open>$pull = {}\<close> again in its first statement and returns from the \<open>$pullAll\<close>
  branch, which does not delete it.
\<close>

theorem C6_empty_pull_mapping:
  "diff c (Obj 1 [(''a'', Arr 2 [Num 1, Num 2, Num 3])]) (Obj 3 [(''a'', Arr 4 [])]) opts =
     Some \<lparr>d_set = None, d_unset = None, d_inc = None, d_push = None, d_pull = Some [],
            d_pullAll = Some [(''a'', [Num 1, Num 2, Num 3])]\<rparr>"
  by (simp add: run_defs)




text \<open>
  Claim C8: when \<open>modified\<close> is strictly longer than \<open>original\<close> and every shared index has
  similarity \<open>1\<close>, the trailing elements of \<open>modified\<close> are pushed in order, and two or more
  pushes on one path are batched into a single ordered \<open>$each\<close> list.

  The code breaks this when the first pushed value is falsy: \<open>push\<close> tests
  \<open>this.changes.$push[path]\<close> for truthiness, takes a stored \<open>0\<close> for a missing entry and
  overwrites it. For \<open>diff({a: ["x"]}, {a: ["x", 0, 5]})\<close> the shared index scores \<open>1\<close>, the
  values \<open>0\<close> and \<open>5\<close> are pushed in order, and the result pushes \<open>5\<close> alone.
\<close>

theorem C8_falsy_first_push_lost:
  "almostEqual c (Str ''x'') (Str ''x'') = Val 1 \<and>
   diff c (Obj 1 [(''a'', Arr 2 [Str ''x''])]) (Obj 3 [(''a'', Arr 4 [Str ''x'', Num 0, Num 5])])
     opts =
     Some \<lparr>d_set = None, d_unset = None, d_inc = None,
            d_push = Some [(''a'', Single (Num 5))], d_pull = None, d_pullAll = None\<rparr>"
  by (simp add: run_defs upt_rec)






end
